theory Spec2Isabelle
  imports Main "HOL-Library.Sublist" "HOL-Library.Multiset" "HOL-Library.AList"
begin

text \<open>
  A shallow embedding of \<^verbatim>\<open>src/util/testing-utils.ts\<close>, the test harness of the
  adapter framework: the Redis mock with its lease table, the strict-access wrapper
  \<^verbatim>\<open>makeStub\<close>, the metrics snapshot parser \<^verbatim>\<open>TestMetrics\<close>, the functions that drive
  asynchronous code under a fake clock, and the test adapter that composes them. The
  models come first, the properties after them. A function that throws returns \<open>Inl\<close> of
  the error; a function whose loop may run forever returns an \<open>option\<close>, or the state
  after a given number of turns.
\<close>

section \<open>Errors raised by the testing utilities\<close>

text \<open>
  Every \<^verbatim>\<open>throw\<close> of \<^verbatim>\<open>src/util/testing-utils.ts\<close> is a value of this type.
  \<open>Error\<close> is \<^verbatim>\<open>new Error(message)\<close>, \<open>TypeError\<close> is what the runtime raises when a
  property of \<^verbatim>\<open>null\<close> or \<^verbatim>\<open>undefined\<close> is read, and \<open>ReplyError\<close> is the object
  \<^verbatim>\<open>{ message: 'anything' } as typeof ReplyError\<close> thrown by \<^verbatim>\<open>RedisMock.set\<close>.
\<close>

datatype jsError = Error string | TypeError string | ReplyError string

text \<open>The message of the \<^verbatim>\<open>TypeError\<close> for reading \<open>name\<close> of \<^verbatim>\<open>null\<close> or \<^verbatim>\<open>undefined\<close>.\<close>

definition cannotRead :: "string \<Rightarrow> string \<Rightarrow> string" where
  "cannotRead what name =
     ''Cannot read properties of '' @ what @ '' (reading '' @ [CHR 0x27] @ name @ [CHR 0x27] @ '')''"

section \<open>RedisMock: the TTL store and the lock-lease table\<close>

subsection \<open>String.prototype.includes\<close>

fun str_includes :: "string \<Rightarrow> string \<Rightarrow> bool" where
  "str_includes [] sub = (sub = [])"
| "str_includes (c # cs) sub = (prefix sub (c # cs) \<or> str_includes cs sub)"

subsection \<open>The lease table is a plain object\<close>

text \<open>
  \<^verbatim>\<open>keys: { [key: string]: string } = {}\<close> is an object literal, so its prototype is
  \<^verbatim>\<open>Object.prototype\<close>. A read \<^verbatim>\<open>this.keys[k]\<close> yields the own property when there is
  one, else the member of \<^verbatim>\<open>Object.prototype\<close> of that name when there is one (a function,
  or the prototype object itself for \<^verbatim>\<open>__proto__\<close>), else \<^verbatim>\<open>undefined\<close>.
  The own properties are the map; \<open>objectPrototypeProps\<close> lists the members every
  plain object inherits.
\<close>

datatype keysValue = KUndefined | KString string | KInherited

definition objectPrototypeProps :: "string list" where
  "objectPrototypeProps =
     [''constructor'', ''__defineGetter__'', ''__defineSetter__'', ''hasOwnProperty'',
      ''__lookupGetter__'', ''__lookupSetter__'', ''isPrototypeOf'',
      ''propertyIsEnumerable'', ''toString'', ''valueOf'', ''__proto__'',
      ''toLocaleString'']"

definition keysGet :: "(string \<rightharpoonup> string) \<Rightarrow> string \<Rightarrow> keysValue" where
  "keysGet ks k =
     (case ks k of
        Some v \<Rightarrow> KString v
      | None \<Rightarrow> if k \<in> set objectPrototypeProps then KInherited else KUndefined)"

text \<open>
  An assignment \<^verbatim>\<open>this.keys[k] = v\<close> creates or overwrites the own property, except for
  \<^verbatim>\<open>__proto__\<close>, whose setter ignores a string.
\<close>

definition keysSet :: "(string \<rightharpoonup> string) \<Rightarrow> string \<Rightarrow> string \<Rightarrow> (string \<rightharpoonup> string)" where
  "keysSet ks k v = (if k = ''__proto__'' then ks else ks(k \<mapsto> v))"

subsection \<open>The mock\<close>

text \<open>
  \<open>store\<close> is the \<^verbatim>\<open>LocalCache<string>(10000)\<close>; its class is not part of the
  sources at hand, so its type is a parameter and its \<^verbatim>\<open>set\<close> method is passed to
  the operations that call it.
\<close>

record 'st RedisMock =
  store :: 'st
  keys :: "string \<rightharpoonup> string"

definition RedisMock_set ::
  "('st \<Rightarrow> string \<Rightarrow> string \<Rightarrow> int \<Rightarrow> 'st) \<Rightarrow> 'st RedisMock \<Rightarrow> string \<Rightarrow> string \<Rightarrow> int
     \<Rightarrow> (jsError + unit) \<times> 'st RedisMock" where
  "RedisMock_set cacheSet r key v ttl =
     (if str_includes key ''force-error'' then (Inl (ReplyError ''anything''), r)
      else (Inr (), r\<lparr>store := cacheSet (store r) key v ttl\<rparr>))"

definition setExternalAdapterResponse ::
  "('st \<Rightarrow> string \<Rightarrow> string \<Rightarrow> int \<Rightarrow> 'st) \<Rightarrow> 'st RedisMock \<Rightarrow> string \<Rightarrow> string \<Rightarrow> int
     \<Rightarrow> (jsError + unit) \<times> 'st RedisMock" where
  "setExternalAdapterResponse cacheSet r key v ttl = RedisMock_set cacheSet r key v ttl"

text \<open>
  \<^verbatim>\<open>evalsha(...args: [string, number, [string, string, number]])\<close>: only the first two
  components of \<^verbatim>\<open>args[2]\<close> are read.
\<close>

definition evalsha ::
  "'st RedisMock \<Rightarrow> string \<times> int \<times> (string \<times> string \<times> int) \<Rightarrow> int \<times> 'st RedisMock" where
  "evalsha r args =
     (case args of (sha, numberOfKeys, (redlockKey, instanceKey, ttl)) \<Rightarrow>
        if keysGet (keys r) redlockKey = KString instanceKey then (1, r)
        else if keysGet (keys r) redlockKey = KUndefined
          then (1, r\<lparr>keys := keysSet (keys r) redlockKey instanceKey\<rparr>)
        else (0, r))"

text \<open>A freshly constructed mock: nothing stored, no lease recorded.\<close>

definition newRedisMock :: "'st \<Rightarrow> 'st RedisMock" where
  "newRedisMock emptyStore = \<lparr>store = emptyStore, keys = Map.empty\<rparr>"

section \<open>JavaScript values\<close>

text \<open>
  The values the utilities handle. A property key is a string or a symbol. An object
  carries its own properties in insertion order and its prototype (\<open>JNull\<close> when it has
  none); functions are opaque.
\<close>

datatype propKey = PString string | PSymbol string

datatype jsval =
    JUndefined
  | JNull
  | JBoolean bool
  | JNumber int
  | JString string
  | JFunction string
  | JObject "(propKey \<times> jsval) list" jsval

fun typeof :: "jsval \<Rightarrow> string" where
  "typeof JUndefined = ''undefined''"
| "typeof JNull = ''object''"
| "typeof (JBoolean b) = ''boolean''"
| "typeof (JNumber n) = ''number''"
| "typeof (JString s) = ''string''"
| "typeof (JFunction f) = ''function''"
| "typeof (JObject ps proto) = ''object''"

text \<open>\<^verbatim>\<open>prop in target\<close>: an own property, or one found along the prototype chain.\<close>

fun hasProperty :: "jsval \<Rightarrow> propKey \<Rightarrow> bool" where
  "hasProperty (JObject ps proto) p = (p \<in> fst ` set ps \<or> hasProperty proto p)"
| "hasProperty v p = False"

text \<open>\<^verbatim>\<open>target[prop]\<close> for an object: the first holder along the chain decides.\<close>

fun getProp :: "jsval \<Rightarrow> propKey \<Rightarrow> jsval" where
  "getProp (JObject ps proto) p = (case map_of ps p of Some v \<Rightarrow> v | None \<Rightarrow> getProp proto p)"
| "getProp v p = JUndefined"

text \<open>\<^verbatim>\<open>String(prop)\<close>.\<close>

fun String :: "propKey \<Rightarrow> string" where
  "String (PString s) = s"
| "String (PSymbol d) = ''Symbol('' @ d @ '')''"

section \<open>makeStub: the strict-access wrapper\<close>

definition allowedUndefinedStubProps :: "string list" where
  "allowedUndefinedStubProps =
     [''$$typeof'', ''nodeType'', ''tagName'', ''hasAttribute'',
      ''@@__IMMUTABLE_ITERABLE__@@'', ''@@__IMMUTABLE_RECORD__@@'', ''toJSON'',
      ''asymmetricMatch'', ''then'']"

fun isStubPropAllowedUndefined :: "propKey \<Rightarrow> bool" where
  "isStubPropAllowedUndefined (PSymbol d) = True"
| "isStubPropAllowedUndefined (PString s) = (s \<in> set allowedUndefinedStubProps)"

text \<open>
  \<^verbatim>\<open>makeStub(name, obj)\<close> returns \<^verbatim>\<open>obj\<close> itself when it is \<^verbatim>\<open>null\<close> or not of type
  \<^verbatim>\<open>object\<close>, and otherwise a \<^verbatim>\<open>Proxy\<close> around it whose \<^verbatim>\<open>get\<close> trap is \<open>proxyGet\<close>. The
  proxy is the pair of the name and the target: nothing of the target is inspected before
  a property is read. The trap also prints the message with \<^verbatim>\<open>console.error\<close> before it
  throws; the console is not modelled.
\<close>

datatype stub = Plain jsval | Proxy string jsval

definition makeStub :: "string \<Rightarrow> jsval \<Rightarrow> stub" where
  "makeStub name obj =
     (if obj = JNull \<or> typeof obj \<noteq> ''object'' then Plain obj else Proxy name obj)"

definition doesNotExist :: "string \<Rightarrow> string" where
  "doesNotExist propName = ''Property '' @ [CHR 0x27] @ propName @ [CHR 0x27] @ '' does not exist''"

definition proxyGet :: "string \<Rightarrow> jsval \<Rightarrow> propKey \<Rightarrow> jsError + stub" where
  "proxyGet name target p =
     (let propName = name @ ''.'' @ String p in
      if \<not> hasProperty target p \<and> \<not> isStubPropAllowedUndefined p
      then Inl (Error (doesNotExist propName))
      else Inr (makeStub propName (getProp target p)))"

text \<open>
  Reading a property of what \<^verbatim>\<open>makeStub\<close> returned. A proxy answers with its trap. A
  value returned unchanged is read as the language reads it: \<^verbatim>\<open>null\<close> and
  \<^verbatim>\<open>undefined\<close> raise a \<^verbatim>\<open>TypeError\<close>, an object is looked up along its chain, and a
  primitive or a function answers from its built-in prototype, which \<open>builtin\<close> stands
  for.
\<close>

fun readProp :: "(jsval \<Rightarrow> propKey \<Rightarrow> jsval) \<Rightarrow> stub \<Rightarrow> propKey \<Rightarrow> jsError + stub" where
  "readProp builtin (Proxy name target) p = proxyGet name target p"
| "readProp builtin (Plain JNull) p =
     Inl (TypeError (cannotRead ''null'' (String p)))"
| "readProp builtin (Plain JUndefined) p =
     Inl (TypeError (cannotRead ''undefined'' (String p)))"
| "readProp builtin (Plain (JObject ps proto)) p = Inr (Plain (getProp (JObject ps proto) p))"
| "readProp builtin (Plain v) p = Inr (Plain (builtin v p))"

text \<open>
  An object literal \<^verbatim>\<open>{ k: v, ... }\<close>: its prototype is \<^verbatim>\<open>Object.prototype\<close>, whose
  members are functions.
\<close>

definition ObjectPrototype :: jsval where
  "ObjectPrototype = JObject (map (\<lambda>n. (PString n, JFunction n)) objectPrototypeProps) JNull"

definition objectLiteral :: "(string \<times> jsval) list \<Rightarrow> jsval" where
  "objectLiteral entries = JObject (map (\<lambda>(n, v). (PString n, v)) entries) ObjectPrototype"

section \<open>String operations of the metrics parser\<close>

text \<open>
  \<^verbatim>\<open>s.split(sep)\<close> for a separator string: the pieces between the occurrences of \<open>sep\<close>,
  found from left to right without overlap; an empty separator splits into single
  characters. \<open>splitOn\<close> carries the piece read so far.
\<close>

function splitOn :: "string \<Rightarrow> string \<Rightarrow> string \<Rightarrow> string list" where
  "splitOn sep cur [] = [cur]"
| "splitOn sep cur (c # cs) =
     (if sep \<noteq> [] \<and> prefix sep (c # cs)
      then cur # splitOn sep [] (drop (length sep) (c # cs))
      else splitOn sep (cur @ [c]) cs)"
  by pat_completeness auto
termination
  by (relation "measure (\<lambda>(sep, cur, s). length s)") auto

definition split_str :: "string \<Rightarrow> string \<Rightarrow> string list" where
  "split_str s sep = (if sep = [] then map (\<lambda>c. [c]) s else splitOn sep [] s)"

text \<open>\<^verbatim>\<open>xs.join(sep)\<close>.\<close>

fun join :: "string \<Rightarrow> string list \<Rightarrow> string" where
  "join sep [] = []"
| "join sep [x] = x"
| "join sep (x # y # ys) = x @ sep @ join sep (y # ys)"

text \<open>\<^verbatim>\<open>s.startsWith(p)\<close>.\<close>

definition startsWith :: "string \<Rightarrow> string \<Rightarrow> bool" where
  "startsWith s p = prefix p s"

text \<open>
  \<^verbatim>\<open>xs.sort((a, b) => a.localeCompare(b))\<close>. \<^verbatim>\<open>localeCompare\<close> belongs to the runtime
  and depends on its locale, so the comparator is a parameter. The sort is stable: an
  element goes in front of the first later element that does not compare smaller.
\<close>

fun insertBy :: "(string \<Rightarrow> string \<Rightarrow> int) \<Rightarrow> string \<Rightarrow> string list \<Rightarrow> string list" where
  "insertBy cmp x [] = [x]"
| "insertBy cmp x (y # ys) = (if cmp x y \<le> 0 then x # y # ys else y # insertBy cmp x ys)"

definition sortBy :: "(string \<Rightarrow> string \<Rightarrow> int) \<Rightarrow> string list \<Rightarrow> string list" where
  "sortBy cmp xs = foldr (insertBy cmp) xs []"

section \<open>TestMetrics: the metrics snapshot parser\<close>

text \<open>
  \<^verbatim>\<open>replaceQuotes\<close> is \<^verbatim>\<open>s.replace(/\\"/g, "'")\<close>: every backslash followed by a double
  quote becomes one apostrophe.
\<close>

fun replaceQuotes :: "string \<Rightarrow> string" where
  "replaceQuotes (a # b # rest) =
     (if a = CHR 0x5C \<and> b = CHR 0x22 then CHR 0x27 # replaceQuotes rest
      else a # replaceQuotes (b # rest))"
| "replaceQuotes s = s"

text \<open>
  \<^verbatim>\<open>nameAndLabels.match(/^([a-z_]+){(.*)}$/)\<close>: a non-empty run of lower-case letters
  and underscores, an opening brace, any characters but line terminators, and a closing
  brace as the last character. The result is the name and the text between the braces,
  or \<open>None\<close> for \<^verbatim>\<open>null\<close>.
\<close>

definition isNameChar :: "char \<Rightarrow> bool" where
  "isNameChar c = (c = CHR ''_'' \<or> (97 \<le> (of_char c :: nat) \<and> (of_char c :: nat) \<le> 122))"

definition isLineTerminator :: "char \<Rightarrow> bool" where
  "isLineTerminator c = (c = CHR 0x0A \<or> c = CHR 0x0D)"

definition matchNameAndLabels :: "string \<Rightarrow> (string \<times> string) option" where
  "matchNameAndLabels s =
     (let name = takeWhile isNameChar s in
      case dropWhile isNameChar s of
        [] \<Rightarrow> None
      | c # body \<Rightarrow>
          if name \<noteq> [] \<and> c = CHR ''{'' \<and> body \<noteq> [] \<and> last body = CHR ''}''
             \<and> list_all (\<lambda>ch. \<not> isLineTerminator ch) (butlast body)
          then Some (name, butlast body) else None)"

text \<open>The expression bound to \<^verbatim>\<open>sortedLabels\<close> in the constructor.\<close>

definition constructor_sortedLabels :: "(string \<Rightarrow> string \<Rightarrow> int) \<Rightarrow> string \<Rightarrow> string" where
  "constructor_sortedLabels localeCompare rawLabels =
     join '',''
       (map (\<lambda>s. s @ [CHR 0x22])
         (sortBy localeCompare
           (filter (\<lambda>label. label \<noteq> [] \<and> \<not> startsWith label ''app_'')
             (split_str (replaceQuotes rawLabels) [CHR 0x22, CHR '','']))))"

text \<open>
  One line of the loop body after the \<^verbatim>\<open>continue\<close> test: the key and the value to
  store. \<^verbatim>\<open>Number\<close> is the runtime's conversion (\<open>toNumber\<close>); the second piece of the
  line is \<^verbatim>\<open>undefined\<close> (\<open>None\<close>) when the line has no space. Destructuring the \<^verbatim>\<open>null\<close>
  of a failed match throws.
\<close>

definition parseLine ::
  "(string \<Rightarrow> string \<Rightarrow> int) \<Rightarrow> (string option \<Rightarrow> 'n) \<Rightarrow> string \<Rightarrow> jsError + (string \<times> 'n)" where
  "parseLine localeCompare toNumber line =
     (case split_str line '' '' of
        [] \<Rightarrow> Inl (TypeError (cannotRead ''undefined'' ''match''))
      | nameAndLabels # others \<Rightarrow>
          (let stringValue = (case others of [] \<Rightarrow> None | v # rest \<Rightarrow> Some v)
           in case matchNameAndLabels nameAndLabels of
                None \<Rightarrow> Inl (TypeError ''null is not iterable'')
              | Some (name, rawLabels) \<Rightarrow>
                  Inr (name @ ''|'' @ constructor_sortedLabels localeCompare rawLabels,
                       toNumber stringValue)))"

definition skipLine :: "string \<Rightarrow> bool" where
  "skipLine line =
     (startsWith line ''#'' \<or> startsWith line ''nodejs_'' \<or> startsWith line ''process_''
      \<or> line = [])"

text \<open>
  The \<^verbatim>\<open>Map<string, number>\<close> keeps its keys in insertion order; \<^verbatim>\<open>map.set\<close> overwrites
  the value of a key in place and appends a new key.
\<close>

fun parseLines ::
  "(string \<Rightarrow> string \<Rightarrow> int) \<Rightarrow> (string option \<Rightarrow> 'n) \<Rightarrow> string list \<Rightarrow> (string \<times> 'n) list
     \<Rightarrow> jsError + (string \<times> 'n) list" where
  "parseLines localeCompare toNumber [] m = Inr m"
| "parseLines localeCompare toNumber (line # rest) m =
     (if skipLine line then parseLines localeCompare toNumber rest m
      else case parseLine localeCompare toNumber line of
             Inl e \<Rightarrow> Inl e
           | Inr (fullName, v) \<Rightarrow>
               parseLines localeCompare toNumber rest (AList.update fullName v m))"

definition TestMetrics ::
  "(string \<Rightarrow> string \<Rightarrow> int) \<Rightarrow> (string option \<Rightarrow> 'n) \<Rightarrow> string \<Rightarrow> jsError + (string \<times> 'n) list" where
  "TestMetrics localeCompare toNumber data =
     parseLines localeCompare toNumber (split_str data [CHR 0x0A]) []"

text \<open>
  \<^verbatim>\<open>get(t, { name, labels })\<close>; \<open>get_sortedLabels\<close> is the expression bound to
  \<^verbatim>\<open>sortedLabels\<close> there. \<open>labels\<close> is the list of \<^verbatim>\<open>Object.entries(labels)\<close>, or
  \<open>None\<close> when the argument is left out. The result is the metric (\<open>None\<close> for
  \<^verbatim>\<open>undefined\<close>) and the messages passed to \<^verbatim>\<open>t.fail\<close>.
\<close>

definition get_sortedLabels :: "(string \<Rightarrow> string \<Rightarrow> int) \<Rightarrow> (string \<times> string) list option \<Rightarrow> string" where
  "get_sortedLabels localeCompare labels =
     (case labels of
        None \<Rightarrow> []
      | Some entries \<Rightarrow>
          join '',''
            (sortBy localeCompare
              (map (\<lambda>(labelName, v). labelName @ ''='' @ [CHR 0x22] @ replaceQuotes v @ [CHR 0x22])
                entries)))"

definition TestMetrics_get ::
  "(string \<Rightarrow> string \<Rightarrow> int) \<Rightarrow> (string \<times> 'n) list \<Rightarrow> string \<Rightarrow> (string \<times> string) list option
     \<Rightarrow> 'n option \<times> string list" where
  "TestMetrics_get localeCompare m name labels =
     (let sortedLabels = get_sortedLabels localeCompare labels;
          metric = map_of m (name @ ''|'' @ sortedLabels)
      in if metric = None
         then
           (let sameNameMetrics =
                  map (\<lambda>k. [CHR 0x0A, CHR 0x09] @ k) (filter (\<lambda>k. startsWith k name) (map fst m));
                possibleSolutionMessage =
                  (if sameNameMetrics \<noteq> []
                   then ''Perhaps you meant one of these: '' @ join '','' sameNameMetrics
                   else ''Check the metric name and labels (no other metrics with the same name were found)'')
            in (metric,
                [''Metric not found:'' @ [CHR 0x0A, CHR 0x09] @ name @ ''|'' @ sortedLabels
                  @ [CHR 0x0A] @ possibleSolutionMessage]))
         else (metric, []))"

section \<open>Driving asynchronous code under virtual time\<close>

text \<open>
  The functions of this part take the installed clock of \<^verbatim>\<open>@sinonjs/fake-timers\<close> as
  their first argument. The clock is an object with methods; here it is the record of
  these methods, acting on the world \<open>'w\<close> that holds the virtual time, the pending
  timers and the system under test. \<^verbatim>\<open>await clock.tickAsync(ms)\<close> and
  \<^verbatim>\<open>await clock.nextAsync()\<close> return when the timers they fire and the promise jobs
  these trigger have run, so each is one step on the world.

  The record \<open>harness\<close> pairs the world with a log of what the utilities did to it: the
  calls of \<^verbatim>\<open>tickAsync\<close> and \<^verbatim>\<open>nextAsync\<close>, every evaluation of a loop predicate with its
  answer, and the requests and assertions of the test adapter.
\<close>

record 'w InstalledClock =
  now :: "'w \<Rightarrow> nat"
  tickAsync :: "nat \<Rightarrow> 'w \<Rightarrow> 'w"
  nextAsync :: "'w \<Rightarrow> 'w"

datatype event =
    TickAsync nat
  | NextAsync
  | IsComplete bool
  | Inject jsval
  | Assertion bool

record 'w harness =
  log :: "event list"
  world :: 'w

definition logged :: "event list \<Rightarrow> 'w harness \<Rightarrow> 'w harness" where
  "logged es s = s\<lparr>log := log s @ es\<rparr>"

definition await_tickAsync :: "'w InstalledClock \<Rightarrow> nat \<Rightarrow> 'w harness \<Rightarrow> 'w harness" where
  "await_tickAsync clock ms s = (logged [TickAsync ms] s)\<lparr>world := tickAsync clock ms (world s)\<rparr>"

definition await_nextAsync :: "'w InstalledClock \<Rightarrow> 'w harness \<Rightarrow> 'w harness" where
  "await_nextAsync clock s = (logged [NextAsync] s)\<lparr>world := nextAsync clock (world s)\<rparr>"

subsection \<open>runAllUntil\<close>

text \<open>
  \<^verbatim>\<open>while (!isComplete()) { await clock.nextAsync() }\<close>. The predicate reads the world.
  The loop has no bound of its own: \<open>None\<close> is the call that never returns.
\<close>

partial_function (option) runAllUntil ::
  "'w InstalledClock \<Rightarrow> ('w \<Rightarrow> bool) \<Rightarrow> 'w harness \<Rightarrow> 'w harness option" where
  "runAllUntil clock isComplete s =
     (if \<not> isComplete (world s)
      then runAllUntil clock isComplete (await_nextAsync clock (logged [IsComplete False] s))
      else Some (logged [IsComplete True] s))"

declare runAllUntil.simps [code]

subsection \<open>runPeriodicAsyncBackgroundExecution\<close>

text \<open>
  \<^verbatim>\<open>for (let i = 0; i < times; i++)\<close>: \<open>periodicLoop\<close> is the loop from the counter \<open>i\<close>
  on (\<open>times'\<close> stands for \<^verbatim>\<open>times\<close>, which may be negative). The predicate handed to
  \<^verbatim>\<open>runAllUntil\<close> is the closure \<^verbatim>\<open>() => stepValidation(i)\<close>.
\<close>

function periodicLoop ::
  "'w InstalledClock \<Rightarrow> nat \<Rightarrow> int \<Rightarrow> (nat \<Rightarrow> 'w \<Rightarrow> bool) \<Rightarrow> nat \<Rightarrow> 'w harness
     \<Rightarrow> 'w harness option" where
  "periodicLoop clock interval times' stepValidation i s =
     (if int i < times'
      then (case runAllUntil clock (stepValidation i) (await_tickAsync clock interval s) of
              None \<Rightarrow> None
            | Some s' \<Rightarrow> periodicLoop clock interval times' stepValidation (Suc i) s')
      else Some s)"
  by pat_completeness auto
termination
  by (relation "measure (\<lambda>(clock, interval, times', stepValidation, i, s). nat (times' - int i))")
     auto

definition runPeriodicAsyncBackgroundExecution ::
  "'w InstalledClock \<Rightarrow> nat \<Rightarrow> int \<Rightarrow> (nat \<Rightarrow> 'w \<Rightarrow> bool) \<Rightarrow> 'w harness \<Rightarrow> 'w harness option" where
  "runPeriodicAsyncBackgroundExecution clock interval times' stepValidation s =
     periodicLoop clock interval times' stepValidation 0 s"

subsection \<open>runAllUntilTime\<close>

text \<open>
  \<^verbatim>\<open>sleep\<close> comes from \<^verbatim>\<open>./index\<close>, which is not among the sources; it is a parameter
  here and modelled below, with the clock. The loop
  \<^verbatim>\<open>while (clock.now < targetTime) { await clock.nextAsync() }\<close> is unrolled for a given
  number of turns, so that every state the call passes through is a value of the
  function: \<open>Running s\<close> is the call still inside the loop after that many turns,
  \<open>Returned s\<close> the call that has left it.
\<close>

datatype 'a outcome = Returned 'a | Running 'a

fun reached :: "'a outcome \<Rightarrow> 'a" where
  "reached (Returned s) = s"
| "reached (Running s) = s"

fun timeLoop :: "'w InstalledClock \<Rightarrow> nat \<Rightarrow> nat \<Rightarrow> 'w harness \<Rightarrow> 'w harness outcome" where
  "timeLoop clock targetTime 0 s =
     (if now clock (world s) < targetTime then Running s else Returned s)"
| "timeLoop clock targetTime (Suc turns) s =
     (if now clock (world s) < targetTime
      then timeLoop clock targetTime turns (await_nextAsync clock s)
      else Returned s)"

definition runAllUntilTime ::
  "'w InstalledClock \<Rightarrow> (nat \<Rightarrow> 'w \<Rightarrow> 'w) \<Rightarrow> nat \<Rightarrow> nat \<Rightarrow> 'w harness \<Rightarrow> 'w harness outcome" where
  "runAllUntilTime clock sleep time turns s =
     (let targetTime = now clock (world s) + time;
          s1 = s\<lparr>world := sleep time (world s)\<rparr>
      in timeLoop clock targetTime turns s1)"

subsection \<open>waitUntilResolved\<close>

text \<open>
  The argument \<^verbatim>\<open>fn: () => Promise<T>\<close> is an operation on the world: \<open>start\<close> is what
  calling it does at once, and \<open>settledWith\<close> tells, for a world, the value its promise
  has been fulfilled with, if it has. The local \<^verbatim>\<open>result\<close> is \<^verbatim>\<open>undefined\<close> when the
  loop is entered, since the assignment \<^verbatim>\<open>result = await fn()\<close> runs as a promise job;
  after each \<^verbatim>\<open>await clock.nextAsync()\<close> it holds the value of the promise if that has
  been fulfilled.
\<close>

record 'w operation =
  start :: "'w \<Rightarrow> 'w"
  settledWith :: "'w \<Rightarrow> jsval option"

definition resultSlot :: "'w operation \<Rightarrow> 'w \<Rightarrow> jsval" where
  "resultSlot fn w = (case settledWith fn w of None \<Rightarrow> JUndefined | Some v \<Rightarrow> v)"

partial_function (option) waitLoop ::
  "'w InstalledClock \<Rightarrow> 'w operation \<Rightarrow> jsval \<Rightarrow> 'w harness \<Rightarrow> (jsval \<times> 'w harness) option" where
  "waitLoop clock fn result s =
     (if result = JUndefined
      then waitLoop clock fn (resultSlot fn (world (await_nextAsync clock s)))
             (await_nextAsync clock s)
      else Some (result, s))"

declare waitLoop.simps [code]

definition waitUntilResolved ::
  "'w InstalledClock \<Rightarrow> 'w operation \<Rightarrow> 'w harness \<Rightarrow> (jsval \<times> 'w harness) option" where
  "waitUntilResolved clock fn s = waitLoop clock fn JUndefined (s\<lparr>world := start fn (world s)\<rparr>)"

section \<open>The fake clock\<close>

text \<open>
  Modelled from the spec: the VirtualClock (section 4.1), which is the installed clock of
  \<^verbatim>\<open>@sinonjs/fake-timers\<close> and not part of the sources, and \<^verbatim>\<open>sleep\<close> of \<^verbatim>\<open>./index\<close>,
  which registers one timer (\<^verbatim>\<open>setTimeout(resolve, ms)\<close>).

  A pending timer is its deadline and its callback, in registration order. What a
  callback of the system under test does is given by \<open>fire\<close>: the timers it registers,
  as delays, depending on the callback and on the clock at the moment it runs. The
  callback of \<^verbatim>\<open>sleep\<close> resolves a promise and registers nothing. \<open>fired\<close> records the
  timers that have run. The time and the pending timers belong to the clock (section 3):
  a callback registers timers, it neither clears timers nor moves the time; times and
  delays are whole milliseconds.
\<close>

datatype 'k callback = SleepResolve | Callback 'k

record 'k FakeTimers =
  clockNow :: nat
  timers :: "(nat \<times> 'k callback) list"
  fired :: "(nat \<times> 'k callback) list"

text \<open>
  The next timer to fire: the earliest deadline, and among equal deadlines the one
  registered first.
\<close>

fun firstTimer :: "(nat \<times> 'a) list \<Rightarrow> (nat \<times> 'a) option" where
  "firstTimer [] = None"
| "firstTimer (tm # tms) =
     (case firstTimer tms of
        None \<Rightarrow> Some tm
      | Some tm' \<Rightarrow> if fst tm \<le> fst tm' then Some tm else Some tm')"

fun registered :: "('k \<Rightarrow> 'k FakeTimers \<Rightarrow> (nat \<times> 'k) list) \<Rightarrow> 'k callback \<Rightarrow> 'k FakeTimers \<Rightarrow> (nat \<times> 'k) list" where
  "registered fire SleepResolve c = []"
| "registered fire (Callback k) c = fire k c"

text \<open>
  Firing a timer sets the time to its deadline, removes it, and runs its callback. A
  timer registered with delay 0 while a tick runs is due one millisecond later, as the
  library has it; \<^verbatim>\<open>nextAsync\<close> takes the delays as they are.
\<close>

definition callTimer ::
  "bool \<Rightarrow> ('k \<Rightarrow> 'k FakeTimers \<Rightarrow> (nat \<times> 'k) list) \<Rightarrow> nat \<times> 'k callback \<Rightarrow> 'k FakeTimers \<Rightarrow> 'k FakeTimers" where
  "callTimer duringTick fire tm c =
     (let c1 = c\<lparr>clockNow := fst tm, timers := remove1 tm (timers c), fired := fired c @ [tm]\<rparr>
      in c1\<lparr>timers := timers c1 @
               map (\<lambda>(delay, k). (fst tm + (if delay = 0 \<and> duringTick then 1 else delay), Callback k))
                 (registered fire (snd tm) c1)\<rparr>)"

definition fake_nextAsync :: "('k \<Rightarrow> 'k FakeTimers \<Rightarrow> (nat \<times> 'k) list) \<Rightarrow> 'k FakeTimers \<Rightarrow> 'k FakeTimers" where
  "fake_nextAsync fire c =
     (case firstTimer (timers c) of None \<Rightarrow> c | Some tm \<Rightarrow> callTimer False fire tm c)"

text \<open>
  \<^verbatim>\<open>tickAsync(ms)\<close> fires the timers due up to \<open>now + ms\<close> in order, those included
  that are registered on the way, and leaves the time at \<open>now + ms\<close>. It terminates
  because a timer registered during the tick is due strictly later than the one that
  registered it: the multiset of the distances of the due timers to the target decreases.
\<close>

lemma firstTimer_mem: "firstTimer tms = Some tm \<Longrightarrow> tm \<in> set tms"
  by (induction tms arbitrary: tm) (auto split: option.splits if_splits)

lemma firstTimer_None: "firstTimer tms = None \<longleftrightarrow> tms = []"
  by (cases tms) (auto split: option.splits)

lemma firstTimer_least: "firstTimer tms = Some tm \<Longrightarrow> x \<in> set tms \<Longrightarrow> fst tm \<le> fst x"
proof (induction tms arbitrary: tm)
  case Nil
  then show ?case by simp
next
  case (Cons a tms)
  show ?case
  proof (cases "firstTimer tms")
    case None
    then have "tms = []" by (simp add: firstTimer_None)
    with Cons.prems show ?thesis by simp
  next
    case (Some tm')
    from Cons.IH [OF Some] have le: "x \<in> set tms \<Longrightarrow> fst tm' \<le> fst x" .
    from Cons.prems Some le show ?thesis
      by (auto split: if_splits)
  qed
qed

lemma firstTimer_Some: "tms \<noteq> [] \<Longrightarrow> \<exists>tm. firstTimer tms = Some tm"
  by (cases tms) (auto split: option.splits)

definition dueWeights :: "nat \<Rightarrow> (nat \<times> 'a) list \<Rightarrow> nat multiset" where
  "dueWeights target tms = mset (map (\<lambda>tm. Suc target - fst tm) (filter (\<lambda>tm. fst tm \<le> target) tms))"

lemma dueWeights_append: "dueWeights target (xs @ ys) = dueWeights target xs + dueWeights target ys"
  by (simp add: dueWeights_def)

lemma dueWeights_remove1:
  assumes "tm \<in> set tms" and "fst tm \<le> target"
  shows "dueWeights target tms = dueWeights target (remove1 tm tms) + {#Suc target - fst tm#}"
  using assms by (induction tms) (auto simp: dueWeights_def)

lemma dueWeights_spawned:
  assumes "w \<in># dueWeights target (map (\<lambda>(delay, k). (t + (if delay = 0 \<and> True then 1 else delay), f k)) xs)"
  shows "w < Suc target - t"
  using assms by (auto simp: dueWeights_def split: if_splits)

lemma callTimer_decreases:
  assumes "firstTimer (timers c) = Some tm" and "fst tm \<le> target"
  shows "(dueWeights target (timers (callTimer True fire tm c)), dueWeights target (timers c))
           \<in> mult {(x, y). x < y}"
proof -
  let ?new = "map (\<lambda>(delay, k). (fst tm + (if delay = 0 \<and> True then 1 else delay), Callback k))
                (registered fire (snd tm)
                  (c\<lparr>clockNow := fst tm, timers := remove1 tm (timers c), fired := fired c @ [tm]\<rparr>))"
  have mem: "tm \<in> set (timers c)" using assms(1) by (rule firstTimer_mem)
  have old: "dueWeights target (timers c)
               = dueWeights target (remove1 tm (timers c)) + {#Suc target - fst tm#}"
    using mem assms(2) by (rule dueWeights_remove1)
  have new: "dueWeights target (timers (callTimer True fire tm c))
               = dueWeights target (remove1 tm (timers c)) + dueWeights target ?new"
    by (simp add: callTimer_def Let_def dueWeights_append)
  have small: "\<forall>k \<in># dueWeights target ?new. \<exists>j \<in># {#Suc target - fst tm#}. (k, j) \<in> {(x, y). x < y}"
    using dueWeights_spawned [of _ target "fst tm" Callback] by auto
  show ?thesis
    unfolding old new by (rule one_step_implies_mult) (use small in auto)
qed

function tickLoop :: "('k \<Rightarrow> 'k FakeTimers \<Rightarrow> (nat \<times> 'k) list) \<Rightarrow> nat \<Rightarrow> 'k FakeTimers \<Rightarrow> 'k FakeTimers" where
  "tickLoop fire target c =
     (case firstTimer (timers c) of
        None \<Rightarrow> c\<lparr>clockNow := target\<rparr>
      | Some tm \<Rightarrow>
          if fst tm \<le> target then tickLoop fire target (callTimer True fire tm c)
          else c\<lparr>clockNow := target\<rparr>)"
  by pat_completeness auto
termination
proof (relation "inv_image (mult {(x, y). x < y}) (\<lambda>(fire, target, c). dueWeights target (timers c))")
  show "wf (inv_image (mult {(x::nat, y). x < y}) (\<lambda>(fire, target, c). dueWeights target (timers c)))"
    by (intro wf_inv_image wf_mult wf_less)
next
  fix fire :: "'k \<Rightarrow> 'k FakeTimers \<Rightarrow> (nat \<times> 'k) list"
    and target :: nat and c :: "'k FakeTimers" and tm :: "nat \<times> 'k callback"
  assume "firstTimer (timers c) = Some tm" "fst tm \<le> target"
  then show "((fire, target, callTimer True fire tm c), (fire, target, c))
      \<in> inv_image (mult {(x, y). x < y}) (\<lambda>(fire, target, c). dueWeights target (timers c))"
    by (simp add: callTimer_decreases)
qed

definition fake_tickAsync ::
  "('k \<Rightarrow> 'k FakeTimers \<Rightarrow> (nat \<times> 'k) list) \<Rightarrow> nat \<Rightarrow> 'k FakeTimers \<Rightarrow> 'k FakeTimers" where
  "fake_tickAsync fire ms c = tickLoop fire (clockNow c + ms) c"

definition fake_setTimeout :: "'k callback \<Rightarrow> nat \<Rightarrow> 'k FakeTimers \<Rightarrow> 'k FakeTimers" where
  "fake_setTimeout cb delay c = c\<lparr>timers := timers c @ [(clockNow c + delay, cb)]\<rparr>"

definition sleep :: "nat \<Rightarrow> 'k FakeTimers \<Rightarrow> 'k FakeTimers" where
  "sleep ms c = fake_setTimeout SleepResolve ms c"

definition fakeClock ::
  "('k \<Rightarrow> 'k FakeTimers \<Rightarrow> (nat \<times> 'k) list) \<Rightarrow> 'k FakeTimers InstalledClock" where
  "fakeClock fire =
     \<lparr>now = clockNow, tickAsync = fake_tickAsync fire, nextAsync = fake_nextAsync fire\<rparr>"

section \<open>TestAdapter: the orchestrator\<close>

text \<open>
  What the adapter needs of its surroundings and the sources do not hold:
  \<open>awaitNative\<close> is awaiting a promise while real timers run (\<open>None\<close> when it never
  settles), \<open>register_metrics\<close> is \<^verbatim>\<open>client.register.metrics()\<close>, \<open>localeCompare\<close> and
  \<open>Number\<close> are the runtime's, \<open>json\<close> is \<^verbatim>\<open>response.json()\<close> and \<open>deepEqual\<close> the
  comparison of \<^verbatim>\<open>t.deepEqual\<close>. An assertion of the test context \<^verbatim>\<open>t\<close> is logged with
  its outcome and does not throw.
\<close>

record ('w, 'n) runtime =
  awaitNative :: "'w operation \<Rightarrow> 'w \<Rightarrow> (jsval \<times> 'w) option"
  register_metrics :: "'w \<Rightarrow> string"
  localeCompare :: "string \<Rightarrow> string \<Rightarrow> int"
  Number :: "string option \<Rightarrow> 'n"
  json :: "jsval \<Rightarrow> jsval"
  deepEqual :: "jsval \<Rightarrow> jsval \<Rightarrow> bool"

text \<open>
  \<^verbatim>\<open>MockCache\<close> extends \<^verbatim>\<open>LocalCache\<close>, which is not among the sources; the adapter
  reads \<^verbatim>\<open>mockCache.cache.size\<close> only. \<^verbatim>\<open>api.inject\<close> of a POST with the payload
  \<^verbatim>\<open>{ data }\<close> and the given headers is an operation on the world. The constructor keeps
  the cache it is given only if it is a \<^verbatim>\<open>MockCache\<close>.
\<close>

record 'w MockCache =
  cache_size :: "'w \<Rightarrow> nat"

datatype 'w Cache = IsMockCache "'w MockCache" | OtherCache

record ('w, 'api) TestAdapter =
  api :: "jsval \<Rightarrow> (string \<times> string) list \<Rightarrow> 'w operation"
  metricsApi :: "'api option"
  clock :: "'w InstalledClock option"
  mockCache :: "'w MockCache option"

definition newTestAdapter ::
  "(jsval \<Rightarrow> (string \<times> string) list \<Rightarrow> 'w operation) \<Rightarrow> 'api option
     \<Rightarrow> 'w InstalledClock option \<Rightarrow> 'w Cache option
     \<Rightarrow> ('w, 'api) TestAdapter" where
  "newTestAdapter api' metricsApi' clock' cache =
     \<lparr>api = api', metricsApi = metricsApi', clock = clock',
      mockCache = (case cache of Some (IsMockCache m) \<Rightarrow> Some m | _ \<Rightarrow> None)\<rparr>"

text \<open>
  \<^verbatim>\<open>v?.name\<close> and \<^verbatim>\<open>v.name\<close> for the fields the adapter reads (none of them is a member
  of a built-in prototype), and \<^verbatim>\<open>delete v.name\<close>.
\<close>

fun optionalChain :: "jsval \<Rightarrow> string \<Rightarrow> jsval" where
  "optionalChain (JObject ps proto) name = getProp (JObject ps proto) (PString name)"
| "optionalChain v name = JUndefined"

fun member :: "jsval \<Rightarrow> string \<Rightarrow> jsError + jsval" where
  "member JNull name = Inl (TypeError (cannotRead ''null'' name))"
| "member JUndefined name = Inl (TypeError (cannotRead ''undefined'' name))"
| "member v name = Inr (optionalChain v name)"

fun deleteProp :: "jsval \<Rightarrow> string \<Rightarrow> jsval" where
  "deleteProp (JObject ps proto) name = JObject (filter (\<lambda>kv. fst kv \<noteq> PString name) ps) proto"
| "deleteProp v name = v"

definition t_is :: "jsval \<Rightarrow> jsval \<Rightarrow> 'w harness \<Rightarrow> 'w harness" where
  "t_is actual expected s = logged [Assertion (actual = expected)] s"

definition nullish :: "jsval \<Rightarrow> jsval \<Rightarrow> jsval" where
  "nullish a b = (if a = JNull \<or> a = JUndefined then b else a)"

definition assertEqualResponses ::
  "('w, 'n) runtime \<Rightarrow> jsval \<Rightarrow> jsval \<Rightarrow> 'w harness \<Rightarrow> (jsError + unit) \<times> 'w harness" where
  "assertEqualResponses rt actual expected s =
     (let received =
            optionalChain (optionalChain actual ''timestamps'') ''providerDataReceivedUnixMs'';
          established =
            optionalChain (optionalChain actual ''timestamps'') ''providerDataStreamEstablishedUnixMs'';
          s1 = t_is (JString (typeof received)) (JString ''number'') s;
          s2 = t_is (JString (typeof (nullish received established))) (JString ''number'') s1
      in if actual = JNull \<or> actual = JUndefined
         then (Inl (TypeError ''Cannot convert undefined or null to object''), s2)
         else (Inr (),
               logged
                 [Assertion
                    (deepEqual rt expected (deleteProp (deleteProp actual ''meta'') ''timestamps''))]
                 s2))"

text \<open>
  \<^verbatim>\<open>request(data, headers)\<close>: without an installed clock the promise of
  \<^verbatim>\<open>makeRequest()\<close> is returned and awaited by the caller; with one,
  \<^verbatim>\<open>waitUntilResolved\<close> drives it. Headers left out are the empty list.
\<close>

definition request ::
  "('w, 'n) runtime \<Rightarrow> ('w, 'api) TestAdapter \<Rightarrow> jsval \<Rightarrow> (string \<times> string) list \<Rightarrow> 'w harness
     \<Rightarrow> (jsval \<times> 'w harness) option" where
  "request rt ta data headers s =
     (case clock ta of
        None \<Rightarrow>
          map_option (\<lambda>(v, w). (v, (logged [Inject data] s)\<lparr>world := w\<rparr>))
            (awaitNative rt (api ta data headers) (world s))
      | Some clk \<Rightarrow> waitUntilResolved clk (api ta data headers) (logged [Inject data] s))"

definition clockMessage :: string where
  "clockMessage =
     ''The \"startBackgroundExecuteThenGetResponse\" method should only be called if a fake clock is installed''"

definition mockCacheMessage :: string where
  "mockCacheMessage =
     ''The \"startBackgroundExecuteThenGetResponse\" method should only be called if a mock cache was provided''"

definition metricsMessage :: string where
  "metricsMessage =
     ''An attempt was made to fetch metrics, but the adapter was started without metrics enabled''"

text \<open>
  \<^verbatim>\<open>waitForCache(expectedSize?)\<close>. The predicate reads \<^verbatim>\<open>this.mockCache!.cache.size\<close>, which
  throws at its first evaluation when there is no mock cache. \<^verbatim>\<open>expectedSize || 1\<close> is 1
  for a missing or zero size.
\<close>

definition waitForCache ::
  "('w, 'api) TestAdapter \<Rightarrow> nat option \<Rightarrow> 'w harness \<Rightarrow> ((jsError + unit) \<times> 'w harness) option" where
  "waitForCache ta expectedSize s =
     (case clock ta of
        None \<Rightarrow> Some (Inl (Error clockMessage), s)
      | Some clk \<Rightarrow>
          (case mockCache ta of
             None \<Rightarrow>
               Some (Inl (TypeError (cannotRead ''undefined'' ''cache'')), s)
           | Some mc \<Rightarrow>
               map_option (\<lambda>s'. (Inr (), s'))
                 (runAllUntil clk
                    (\<lambda>w. (case expectedSize of None \<Rightarrow> 1 | Some n \<Rightarrow> if n = 0 then 1 else n)
                            \<le> cache_size mc w)
                    s)))"

record requestParams =
  requestData :: jsval
  expectedResponse :: "jsval option"
  expectedCacheSize :: "nat option"

definition startBackgroundExecuteThenGetResponse ::
  "('w, 'n) runtime \<Rightarrow> ('w, 'api) TestAdapter \<Rightarrow> requestParams \<Rightarrow> 'w harness
     \<Rightarrow> ((jsError + jsval) \<times> 'w harness) option" where
  "startBackgroundExecuteThenGetResponse rt ta params s =
     (if clock ta = None then Some (Inl (Error clockMessage), s)
      else if mockCache ta = None then Some (Inl (Error mockCacheMessage), s)
      else
        (case request rt ta (requestData params) [] s of
           None \<Rightarrow> None
         | Some (error, s1) \<Rightarrow>
             (case member error ''statusCode'' of
                Inl e \<Rightarrow> Some (Inl e, s1)
              | Inr code \<Rightarrow>
                  (case waitForCache ta (expectedCacheSize params) (t_is code (JNumber 504) s1) of
                     None \<Rightarrow> None
                   | Some (Inl e, s2) \<Rightarrow> Some (Inl e, s2)
                   | Some (Inr u, s2) \<Rightarrow>
                       (case request rt ta (requestData params) [] s2 of
                          None \<Rightarrow> None
                        | Some (response, s3) \<Rightarrow>
                            (case expectedResponse params of
                               Some expected \<Rightarrow>
                                 (case assertEqualResponses rt (json rt response) expected s3 of
                                    (Inl e, s4) \<Rightarrow> Some (Inl e, s4)
                                  | (Inr u', s4) \<Rightarrow> Some (Inr response, s4))
                             | None \<Rightarrow>
                                 (case member response ''statusCode'' of
                                    Inl e \<Rightarrow> Some (Inl e, s3)
                                  | Inr code' \<Rightarrow>
                                      Some (Inr response, t_is code' (JNumber 200) s3))))))))"

text \<open>\<^verbatim>\<open>getMetrics()\<close>: the parsed snapshot, or what the constructor throws.\<close>

definition getMetrics ::
  "('w, 'n) runtime \<Rightarrow> ('w, 'api) TestAdapter \<Rightarrow> 'w harness \<Rightarrow> jsError + (string \<times> 'n) list" where
  "getMetrics rt ta s =
     (if metricsApi ta = None then Inl (Error metricsMessage)
      else TestMetrics (localeCompare rt) (Number rt) (register_metrics rt (world s)))"

section \<open>What the contracts of the clock-driving functions say\<close>

text \<open>
  Predicate-gated advancement (section 4.3 of the specification): the predicate is
  evaluated; if it holds the advancement ends, otherwise the clock goes to its next timer
  and the same is done again. \<open>gatedAdvance clk p w es w'\<close>: from the world \<open>w\<close> this
  logs \<open>es\<close> and ends in \<open>w'\<close>.
\<close>

inductive gatedAdvance :: "'w InstalledClock \<Rightarrow> ('w \<Rightarrow> bool) \<Rightarrow> 'w \<Rightarrow> event list \<Rightarrow> 'w \<Rightarrow> bool"
  for clk :: "'w InstalledClock" and isComplete :: "'w \<Rightarrow> bool" where
  holds: "isComplete w \<Longrightarrow> gatedAdvance clk isComplete w [IsComplete True] w"
| advance: "\<not> isComplete w \<Longrightarrow> gatedAdvance clk isComplete (nextAsync clk w) es w'
     \<Longrightarrow> gatedAdvance clk isComplete w (IsComplete False # NextAsync # es) w'"

text \<open>
  Periodic execution (section 4.4): for each iteration from \<open>i\<close> up to \<open>n\<close>, one tick
  of \<open>interval\<close> milliseconds and then the gated advancement with \<open>stepValidation i\<close>.
\<close>

inductive periodicExecution ::
  "'w InstalledClock \<Rightarrow> nat \<Rightarrow> (nat \<Rightarrow> 'w \<Rightarrow> bool) \<Rightarrow> nat \<Rightarrow> nat \<Rightarrow> 'w \<Rightarrow> event list \<Rightarrow> 'w \<Rightarrow> bool"
  for clk :: "'w InstalledClock" and interval :: nat and stepValidation :: "nat \<Rightarrow> 'w \<Rightarrow> bool" where
  finished: "periodicExecution clk interval stepValidation n n w [] w"
| iteration: "i < n \<Longrightarrow> gatedAdvance clk (stepValidation i) (tickAsync clk interval w) es w1
     \<Longrightarrow> periodicExecution clk interval stepValidation (Suc i) n w1 rest w'
     \<Longrightarrow> periodicExecution clk interval stepValidation i n w (TickAsync interval # es @ rest) w'"

text \<open>The numbers of predicate evaluations and of \<^verbatim>\<open>nextAsync\<close> calls in a log.\<close>

fun predicateCalls :: "event list \<Rightarrow> nat" where
  "predicateCalls [] = 0"
| "predicateCalls (IsComplete b # es) = Suc (predicateCalls es)"
| "predicateCalls (e # es) = predicateCalls es"

fun nextCalls :: "event list \<Rightarrow> nat" where
  "nextCalls [] = 0"
| "nextCalls (NextAsync # es) = Suc (nextCalls es)"
| "nextCalls (e # es) = nextCalls es"

text \<open>
  Bounded advancement (section 4.5), on the fake clock: the time is not past the target,
  and the timer that \<^verbatim>\<open>sleep\<close> registered at the target is pending as long as the time
  is before it; the timers fired since the call began all had deadlines up to the target.
\<close>

definition sentinelPending :: "nat \<Rightarrow> 'k FakeTimers \<Rightarrow> bool" where
  "sentinelPending target c \<longleftrightarrow>
     clockNow c \<le> target \<and> (clockNow c < target \<longrightarrow> (target, SleepResolve) \<in> set (timers c))"

definition firedSince :: "'k FakeTimers \<Rightarrow> 'k FakeTimers \<Rightarrow> (nat \<times> 'k callback) list" where
  "firedSince c0 c = drop (length (fired c0)) (fired c)"

definition firedWithin :: "nat \<Rightarrow> 'k FakeTimers \<Rightarrow> 'k FakeTimers \<Rightarrow> bool" where
  "firedWithin target c0 c \<longleftrightarrow>
     prefix (fired c0) (fired c) \<and> list_all (\<lambda>tm. fst tm \<le> target) (firedSince c0 c)"

section \<open>An example system under test\<close>

text \<open>
  A background execution every 1000 ms that writes to the cache 10 ms later, on the fake
  clock; the inputs of the examples below.
\<close>

datatype job = BackgroundExecute | CacheWrite

fun exampleFire :: "job \<Rightarrow> job FakeTimers \<Rightarrow> (nat \<times> job) list" where
  "exampleFire BackgroundExecute c = [(1000, BackgroundExecute), (10, CacheWrite)]"
| "exampleFire CacheWrite c = []"

definition exampleStart :: "job FakeTimers harness" where
  "exampleStart =
     \<lparr>log = [],
      world = \<lparr>clockNow = 0, timers = [(1000, Callback BackgroundExecute)], fired = []\<rparr>\<rparr>"

definition cacheWrites :: "job FakeTimers \<Rightarrow> nat" where
  "cacheWrites c = length (filter (\<lambda>tm. snd tm = Callback CacheWrite) (fired c))"

definition exampleValidation :: "nat \<Rightarrow> job FakeTimers \<Rightarrow> bool" where
  "exampleValidation i c = (i < cacheWrites c)"

definition timersPending :: "job FakeTimers \<Rightarrow> bool" where
  "timersPending c = (timers c \<noteq> [])"

text \<open>
  Two operations: one whose promise is fulfilled with a string once the cache has been
  written, and one whose promise is fulfilled with \<^verbatim>\<open>undefined\<close> from the start.
\<close>

definition cachedOperation :: "job FakeTimers operation" where
  "cachedOperation =
     \<lparr>start = (\<lambda>c. c),
      settledWith = (\<lambda>c. if 0 < cacheWrites c then Some (JString ''ok'') else None)\<rparr>"

definition voidOperation :: "job FakeTimers operation" where
  "voidOperation = \<lparr>start = (\<lambda>c. c), settledWith = (\<lambda>c. Some JUndefined)\<rparr>"

definition exampleRuntime :: "(job FakeTimers, string option) runtime" where
  "exampleRuntime =
     \<lparr>awaitNative = (\<lambda>fn c. None),
      register_metrics = (\<lambda>c. []),
      localeCompare = (\<lambda>a b. 0),
      Number = (\<lambda>v. v),
      json = (\<lambda>v. v),
      deepEqual = (\<lambda>a b. a = b)\<rparr>"

definition exampleParams :: requestParams where
  "exampleParams = \<lparr>requestData = JNull, expectedResponse = None, expectedCacheSize = None\<rparr>"

text \<open>
  An adapter on this system: a request is answered with status 504 until the cache has
  been written and with status 200 afterwards.
\<close>

definition exampleResponse :: "int \<Rightarrow> jsval" where
  "exampleResponse code = objectLiteral [(''statusCode'', JNumber code)]"

definition exampleApi :: "jsval \<Rightarrow> (string \<times> string) list \<Rightarrow> job FakeTimers operation" where
  "exampleApi data headers =
     \<lparr>start = (\<lambda>c. c),
      settledWith = (\<lambda>c. if fired c = [] then None
                          else if 0 < cacheWrites c then Some (exampleResponse 200)
                          else Some (exampleResponse 504))\<rparr>"

definition exampleMockCache :: "job FakeTimers MockCache" where
  "exampleMockCache = \<lparr>cache_size = cacheWrites\<rparr>"

definition exampleAdapter :: "(job FakeTimers, unit) TestAdapter" where
  "exampleAdapter =
     newTestAdapter exampleApi None (Some (fakeClock exampleFire)) (Some (IsMockCache exampleMockCache))"

definition adapterWithoutClock :: "(job FakeTimers, unit) TestAdapter" where
  "adapterWithoutClock = newTestAdapter exampleApi None None (Some (IsMockCache exampleMockCache))"

definition adapterWithoutMockCache :: "(job FakeTimers, unit) TestAdapter" where
  "adapterWithoutMockCache =
     newTestAdapter exampleApi None (Some (fakeClock exampleFire)) (Some OtherCache)"

section \<open>Properties of RedisMock\<close>

lemma includes_iff_sublist: "str_includes s sub \<longleftrightarrow> sublist sub s"
  by (induction s) (auto simp: sublist_Cons_right)

lemma keysGet_own: "ks k = Some v \<Longrightarrow> keysGet ks k = KString v"
  by (simp add: keysGet_def)

lemma keysGet_absent:
  "ks k = None \<Longrightarrow> k \<notin> set objectPrototypeProps \<Longrightarrow> keysGet ks k = KUndefined"
  by (simp add: keysGet_def)

lemma keysSet_plain: "k \<notin> set objectPrototypeProps \<Longrightarrow> keysSet ks k v = ks(k \<mapsto> v)"
  by (auto simp: keysSet_def objectPrototypeProps_def)

text \<open>
  For a resource key that is not the name of a member of \<open>Object.prototype\<close> the three
  cases of the lock script are as the comments of \<^verbatim>\<open>evalsha\<close> say: acquisition of a
  key nobody holds, extension by the holder (no change), rejection of another holder
  (no change).
\<close>

lemma evalsha_acquire:
  assumes "keys r R = None" and "R \<notin> set objectPrototypeProps"
  shows "evalsha r (sha, n, (R, H1, ttl)) = (1, r\<lparr>keys := (keys r)(R \<mapsto> H1)\<rparr>)"
  using assms by (simp add: evalsha_def keysGet_absent keysSet_plain)

lemma evalsha_extend:
  assumes "keys r R = Some H1"
  shows "evalsha r (sha, n, (R, H1, ttl)) = (1, r)"
  using assms by (simp add: evalsha_def keysGet_own)

lemma evalsha_reject:
  assumes "keys r R = Some H1" and "H2 \<noteq> H1"
  shows "evalsha r (sha, n, (R, H2, ttl)) = (0, r)"
  using assms by (simp add: evalsha_def keysGet_own)

lemma evalsha_holder_kept:
  assumes "keys r R = Some H1"
  shows "keys (snd (evalsha r (sha, n, (R', H2, ttl)))) R = Some H1"
  using assms
  by (cases "R' = R") (auto simp: evalsha_def keysGet_def keysSet_def split: option.splits)

text \<open>
  C1. \<^verbatim>\<open>evalsha\<close> on a resource key that nobody holds is meant to record the caller
  as holder and to return 1. On a fresh mock the key \<^verbatim>\<open>constructor\<close> is held by nobody,
  yet the script returns 0 and records nothing: the read \<^verbatim>\<open>this.keys['constructor']\<close>
  finds \<^verbatim>\<open>Object.prototype.constructor\<close>, which is neither the caller's token nor
  \<^verbatim>\<open>undefined\<close>.
\<close>

theorem evalsha_inherited_key_rejected:
  "evalsha (newRedisMock st) (''sha'', 1, (''constructor'', ''h1'', 1000)) = (0, newRedisMock st)
   \<and> keys (newRedisMock st) ''constructor'' = None"
  by (simp add: evalsha_def keysGet_def newRedisMock_def objectPrototypeProps_def)

text \<open>
  C2. For every key that contains \<^verbatim>\<open>force-error\<close>, every value and every ttl,
  \<^verbatim>\<open>RedisMock.set\<close> throws and the mock (the store with all its entries, and the lease
  table) is what it was before the call.
\<close>

theorem RedisMock_set_force_error:
  assumes "str_includes key ''force-error''"
  shows "RedisMock_set cacheSet r key v ttl = (Inl (ReplyError ''anything''), r)"
  using assms by (simp add: RedisMock_set_def)

theorem RedisMock_set_force_error_witness:
  "str_includes ''force-error-key'' ''force-error''
   \<and> RedisMock_set (\<lambda>s k v t. (k, v) # s) (newRedisMock [(''a'', ''1'')]) ''force-error-key'' ''v'' 5000
       = (Inl (ReplyError ''anything''), newRedisMock [(''a'', ''1'')])"
proof -
  have h: "str_includes ''force-error-key'' ''force-error''" by simp
  show ?thesis using h RedisMock_set_force_error [OF h] by simp
qed

section \<open>Properties of makeStub\<close>

lemma isObject_cases:
  "v \<noteq> JNull \<and> typeof v = ''object'' \<longleftrightarrow> (\<exists>ps proto. v = JObject ps proto)"
  by (cases v) auto

lemma readProp_Plain_no_Error:
  "typeof v \<noteq> ''object'' \<or> v = JNull \<Longrightarrow> readProp builtin (Plain v) p \<noteq> Inl (Error msg)"
  by (cases v) auto

text \<open>
  C9. Reading \<open>p\<close> on \<^verbatim>\<open>makeStub(name, v)\<close> raises the "does not exist" error exactly
  when \<open>v\<close> is a non-null object, \<open>p\<close> is not in \<open>v\<close> (\<^verbatim>\<open>prop in target\<close> is false), and
  \<open>p\<close> is neither a symbol nor on the allow-list; the error then names the path
  \<^verbatim>\<open>name.p\<close>. When \<open>p\<close> is in \<open>v\<close> the read returns \<^verbatim>\<open>makeStub\<close> of the extended path and
  the field's value, and \<^verbatim>\<open>makeStub\<close> of \<^verbatim>\<open>null\<close> or of a non-object is the value itself.
\<close>

theorem makeStub_strict_access:
  "((\<exists>msg. readProp builtin (makeStub name v) p = Inl (Error msg)) \<longleftrightarrow>
      (v \<noteq> JNull \<and> typeof v = ''object'' \<and> \<not> hasProperty v p
       \<and> (case p of PSymbol d \<Rightarrow> False | PString s \<Rightarrow> s \<notin> set allowedUndefinedStubProps)))
   \<and> (v \<noteq> JNull \<and> typeof v = ''object'' \<and> \<not> hasProperty v p
       \<and> (case p of PSymbol d \<Rightarrow> False | PString s \<Rightarrow> s \<notin> set allowedUndefinedStubProps)
      \<longrightarrow> readProp builtin (makeStub name v) p
            = Inl (Error (doesNotExist (name @ ''.'' @ String p))))
   \<and> (v \<noteq> JNull \<and> typeof v = ''object'' \<and> hasProperty v p
      \<longrightarrow> readProp builtin (makeStub name v) p
            = Inr (makeStub (name @ ''.'' @ String p) (getProp v p)))
   \<and> (v = JNull \<or> typeof v \<noteq> ''object'' \<longrightarrow> makeStub name v = Plain v)"
proof (cases "v \<noteq> JNull \<and> typeof v = ''object''")
  case True
  then obtain ps proto where v: "v = JObject ps proto" by (auto simp: isObject_cases)
  show ?thesis
    by (cases p) (auto simp: v makeStub_def proxyGet_def Let_def)
next
  case False
  then have pl: "makeStub name v = Plain v" by (auto simp: makeStub_def)
  from False have "\<And>msg. readProp builtin (Plain v) p \<noteq> Inl (Error msg)"
    by (intro readProp_Plain_no_Error) auto
  with False pl show ?thesis by auto
qed

text \<open>
  The example of the source's comment, \<^verbatim>\<open>makeStub('obj', { foo: { bar: 1 } })\<close>:
  \<^verbatim>\<open>obj.foo\<close> is a proxy of the inner object, \<^verbatim>\<open>obj.foo.baz\<close> raises, an inherited member
  such as \<^verbatim>\<open>toString\<close> is read without error, and a number is returned unwrapped.
\<close>

theorem makeStub_strict_access_witness:
  "readProp (\<lambda>v p. JUndefined)
      (makeStub ''obj.foo'' (objectLiteral [(''bar'', JNumber 1)])) (PString ''baz'')
     = Inl (Error (doesNotExist ''obj.foo.baz''))
   \<and> readProp (\<lambda>v p. JUndefined)
      (makeStub ''obj'' (objectLiteral [(''foo'', objectLiteral [(''bar'', JNumber 1)])]))
      (PString ''foo'')
     = Inr (Proxy ''obj.foo'' (objectLiteral [(''bar'', JNumber 1)]))
   \<and> readProp (\<lambda>v p. JUndefined)
      (makeStub ''obj'' (objectLiteral [(''foo'', JNumber 1)])) (PString ''toString'')
     = Inr (Plain (JFunction ''toString''))
   \<and> makeStub ''obj.foo.bar'' (JNumber 1) = Plain (JNumber 1)"
  using makeStub_strict_access [of "\<lambda>v p. JUndefined" "''obj.foo''"
          "objectLiteral [(''bar'', JNumber 1)]" "PString ''baz''"]
        makeStub_strict_access [of "\<lambda>v p. JUndefined" "''obj''"
          "objectLiteral [(''foo'', objectLiteral [(''bar'', JNumber 1)])]" "PString ''foo''"]
        makeStub_strict_access [of "\<lambda>v p. JUndefined" "''obj''"
          "objectLiteral [(''foo'', JNumber 1)]" "PString ''toString''"]
        makeStub_strict_access [of _ "''obj.foo.bar''" "JNumber 1"]
  by (simp add: objectLiteral_def ObjectPrototype_def objectPrototypeProps_def
        allowedUndefinedStubProps_def makeStub_def)

section \<open>Properties of TestMetrics\<close>

lemmas parse_simps = parseLine_def matchNameAndLabels_def isNameChar_def isLineTerminator_def
  constructor_sortedLabels_def split_str_def sortBy_def startsWith_def skipLine_def TestMetrics_def

text \<open>
  Splitting on \<^verbatim>\<open>",\<close> takes the closing quote off every label but the last, and the
  constructor then appends a quote to every fragment, so the last label that is kept ends
  in two quotes. In a snapshot whose lines end with the \<^verbatim>\<open>app_\<close> default labels the
  last fragment is dropped and the key is the one \<^verbatim>\<open>get\<close> builds.
\<close>

lemma parsed_line_with_default_labels:
  \<open>TestMetrics cmp toNumber ''m{a="1",app_name="T",app_version="1.0"} 5''
     = Inr [(''m|a="1"'', toNumber (Some ''5''))]
   \<and> TestMetrics_get cmp [(''m|a="1"'', toNumber (Some ''5''))] ''m'' (Some [(''a'', ''1'')])
     = (Some (toNumber (Some ''5'')), [])\<close>
  by (simp add: parse_simps get_sortedLabels_def TestMetrics_get_def Let_def)

text \<open>
  C3. The key of a line is meant not to depend on the order of its labels. The lines
  \<^verbatim>\<open>m{a="1",b="2"} 5\<close> and \<^verbatim>\<open>m{b="2",a="1"} 5\<close> carry the same two labels, and whatever
  the comparator, the constructor stores them under different keys: the doubled quote
  follows the value of whichever label stands last in the line.
\<close>

theorem constructor_label_order_dependent:
  \<open>parseLine cmp toNumber ''m{a="1",b="2"} 5''
     = Inr (if cmp ''a="1'' ''b="2"'' \<le> 0 then ''m|a="1",b="2""'' else ''m|b="2"",a="1"'',
            toNumber (Some ''5''))
   \<and> parseLine cmp toNumber ''m{b="2",a="1"} 5''
     = Inr (if cmp ''b="2'' ''a="1"'' \<le> 0 then ''m|b="2",a="1""'' else ''m|a="1"",b="2"'',
            toNumber (Some ''5''))
   \<and> map_sum id fst (parseLine cmp toNumber ''m{a="1",b="2"} 5'')
     \<noteq> map_sum id fst (parseLine cmp toNumber ''m{b="2",a="1"} 5'')\<close>
  by (simp add: parse_simps)

text \<open>
  C4. \<^verbatim>\<open>get\<close> is meant to build the key under which the constructor stored the line.
  For the line \<^verbatim>\<open>m{a="1"} 5\<close>, which has no \<^verbatim>\<open>app_\<close> label, the constructor stores the
  value under \<^verbatim>\<open>m|a="1""\<close>, \<^verbatim>\<open>get\<close> with the labels \<^verbatim>\<open>{ a: '1' }\<close> looks up
  \<^verbatim>\<open>m|a="1"\<close>, and the lookup finds nothing.
\<close>

theorem get_misses_parsed_line:
  \<open>TestMetrics cmp toNumber ''m{a="1"} 5'' = Inr [(''m|a="1""'', toNumber (Some ''5''))]
   \<and> get_sortedLabels cmp (Some [(''a'', ''1'')]) = ''a="1"''
   \<and> fst (TestMetrics_get cmp [(''m|a="1""'', toNumber (Some ''5''))] ''m'' (Some [(''a'', ''1'')]))
     = None\<close>
  by (simp add: parse_simps get_sortedLabels_def TestMetrics_get_def Let_def)

section \<open>Properties of the clock-driving functions\<close>

lemmas example_simps = fakeClock_def fake_tickAsync_def fake_nextAsync_def callTimer_def
  exampleStart_def exampleValidation_def cacheWrites_def timersPending_def
  await_tickAsync_def await_nextAsync_def logged_def sleep_def fake_setTimeout_def

subsection \<open>runAllUntil\<close>

text \<open>
  C7. When the predicate holds as \<^verbatim>\<open>runAllUntil\<close> is entered, the call returns after that
  one evaluation: the log gains the evaluation and no \<^verbatim>\<open>nextAsync\<close>, and the world, with
  its virtual time and its pending timers, is the one at entry.
\<close>

theorem runAllUntil_already_complete:
  assumes "isComplete (world s)"
  shows "runAllUntil clk isComplete s = Some (s\<lparr>log := log s @ [IsComplete True]\<rparr>)"
  using assms by (subst runAllUntil.simps) (simp add: logged_def)

theorem runAllUntil_already_complete_witness:
  "timersPending (world exampleStart)
   \<and> runAllUntil (fakeClock exampleFire) timersPending exampleStart
       = Some \<lparr>log = [IsComplete True],
               world = \<lparr>clockNow = 0, timers = [(1000, Callback BackgroundExecute)], fired = []\<rparr>\<rparr>"
proof -
  have h: "timersPending (world exampleStart)" by (simp add: example_simps)
  show ?thesis
    using h runAllUntil_already_complete [of timersPending exampleStart "fakeClock exampleFire"]
    by (simp add: exampleStart_def)
qed

text \<open>A call of \<^verbatim>\<open>runAllUntil\<close> that returns has done a gated advancement.\<close>

lemma runAllUntil_gated:
  assumes "runAllUntil clk isComplete s = Some s'"
  shows "\<exists>es. log s' = log s @ es \<and> gatedAdvance clk isComplete (world s) es (world s')"
proof (rule runAllUntil.raw_induct [OF _ assms])
  fix f and clk :: "'w InstalledClock" and isComplete s s'
  assume IH: "\<And>c p h y. f c p h = Some y
      \<Longrightarrow> \<exists>es. log y = log h @ es \<and> gatedAdvance c p (world h) es (world y)"
    and eq: "(if \<not> isComplete (world s)
        then f clk isComplete (await_nextAsync clk (logged [IsComplete False] s))
        else Some (logged [IsComplete True] s)) = Some s'"
  show "\<exists>es. log s' = log s @ es \<and> gatedAdvance clk isComplete (world s) es (world s')"
  proof (cases "isComplete (world s)")
    case True
    with eq have "s' = logged [IsComplete True] s" by simp
    with True show ?thesis by (auto simp: logged_def intro: gatedAdvance.holds)
  next
    case False
    with eq have "f clk isComplete (await_nextAsync clk (logged [IsComplete False] s)) = Some s'"
      by simp
    from IH [OF this] obtain es where
      es: "log s' = log (await_nextAsync clk (logged [IsComplete False] s)) @ es"
      and g: "gatedAdvance clk isComplete
                (world (await_nextAsync clk (logged [IsComplete False] s))) es (world s')"
      by blast
    from g have "gatedAdvance clk isComplete (nextAsync clk (world s)) es (world s')"
      by (simp add: await_nextAsync_def logged_def)
    with False have "gatedAdvance clk isComplete (world s) (IsComplete False # NextAsync # es) (world s')"
      by (rule gatedAdvance.advance)
    moreover from es have "log s' = log s @ IsComplete False # NextAsync # es"
      by (simp add: await_nextAsync_def logged_def)
    ultimately show ?thesis by blast
  qed
qed

subsection \<open>waitUntilResolved\<close>

lemma waitLoop_result:
  assumes "waitLoop clk fn result s = Some y"
  shows "fst y \<noteq> JUndefined"
proof (rule waitLoop.raw_induct [OF _ assms])
  fix f clk fn result s y
  assume IH: "\<And>c g r h y. f c g r h = Some y \<Longrightarrow> fst y \<noteq> JUndefined"
    and eq: "(if result = JUndefined
        then f clk fn (resultSlot fn (world (await_nextAsync clk s))) (await_nextAsync clk s)
        else Some (result, s)) = Some y"
  show "fst y \<noteq> JUndefined"
  proof (cases "result = JUndefined")
    case True
    with eq show ?thesis by (auto dest: IH)
  next
    case False
    with eq show ?thesis by auto
  qed
qed

lemma waitLoop_never_returns:
  assumes only: "\<And>w. settledWith fn w = None \<or> settledWith fn w = Some JUndefined"
  shows "waitLoop clk fn JUndefined s = None"
proof (rule ccontr)
  assume "waitLoop clk fn JUndefined s \<noteq> None"
  then obtain y where y: "waitLoop clk fn JUndefined s = Some y" by auto
  have slot: "resultSlot fn w = JUndefined" for w
    using only [of w] by (auto simp: resultSlot_def)
  have "fn' = fn \<longrightarrow> result \<noteq> JUndefined"
    if "waitLoop clock' fn' result s' = Some y'" for clock' fn' result s' y'
  proof (rule waitLoop.raw_induct [OF _ that])
    fix f clk fn' result s y
    assume IH: "\<And>c g r h y. f c g r h = Some y \<Longrightarrow> g = fn \<longrightarrow> r \<noteq> JUndefined"
      and eq: "(if result = JUndefined
          then f clk fn' (resultSlot fn' (world (await_nextAsync clk s))) (await_nextAsync clk s)
          else Some (result, s)) = Some y"
    show "fn' = fn \<longrightarrow> result \<noteq> JUndefined"
    proof (intro impI notI)
      assume "fn' = fn" "result = JUndefined"
      with eq have "f clk fn (resultSlot fn (world (await_nextAsync clk s))) (await_nextAsync clk s) = Some y"
        by simp
      from IH [OF this] show False by (simp add: slot)
    qed
  qed
  from this [OF y] show False by simp
qed

text \<open>
  C10. Whenever \<^verbatim>\<open>waitUntilResolved\<close> returns, the value it returns is not \<^verbatim>\<open>undefined\<close>;
  and for an operation whose promise is never fulfilled with anything but \<^verbatim>\<open>undefined\<close>
  the call never returns.
\<close>

theorem waitUntilResolved_never_undefined:
  "(\<forall>r s'. waitUntilResolved clk fn s = Some (r, s') \<longrightarrow> r \<noteq> JUndefined)
   \<and> ((\<forall>w. settledWith fn w = None \<or> settledWith fn w = Some JUndefined)
        \<longrightarrow> waitUntilResolved clk fn s = None)"
proof (intro conjI allI impI)
  fix r s' assume "waitUntilResolved clk fn s = Some (r, s')"
  then show "r \<noteq> JUndefined"
    unfolding waitUntilResolved_def by (auto dest: waitLoop_result)
next
  assume "\<forall>w. settledWith fn w = None \<or> settledWith fn w = Some JUndefined"
  then show "waitUntilResolved clk fn s = None"
    unfolding waitUntilResolved_def by (intro waitLoop_never_returns) auto
qed

lemma cachedOperation_resolves:
  "waitUntilResolved (fakeClock exampleFire) cachedOperation exampleStart
     = Some (JString ''ok'',
         \<lparr>log = [NextAsync, NextAsync],
          world = \<lparr>clockNow = 1010,
                    timers = [(2000, Callback BackgroundExecute)],
                    fired = [(1000, Callback BackgroundExecute), (1010, Callback CacheWrite)]\<rparr>\<rparr>)"
  by (simp add: waitUntilResolved_def waitLoop.simps resultSlot_def cachedOperation_def example_simps)

theorem waitUntilResolved_never_undefined_witness:
  "waitUntilResolved (fakeClock exampleFire) cachedOperation exampleStart
     = Some (JString ''ok'',
         \<lparr>log = [NextAsync, NextAsync],
          world = \<lparr>clockNow = 1010,
                    timers = [(2000, Callback BackgroundExecute)],
                    fired = [(1000, Callback BackgroundExecute), (1010, Callback CacheWrite)]\<rparr>\<rparr>)
   \<and> JString ''ok'' \<noteq> JUndefined
   \<and> waitUntilResolved (fakeClock exampleFire) voidOperation exampleStart = None"
  using waitUntilResolved_never_undefined [of "fakeClock exampleFire" cachedOperation exampleStart]
        waitUntilResolved_never_undefined [of "fakeClock exampleFire" voidOperation exampleStart]
        cachedOperation_resolves
  by (simp add: voidOperation_def)

subsection \<open>runPeriodicAsyncBackgroundExecution\<close>

lemma predicateCalls_append [simp]: "predicateCalls (xs @ ys) = predicateCalls xs + predicateCalls ys"
  by (induction xs rule: predicateCalls.induct) auto

lemma nextCalls_append [simp]: "nextCalls (xs @ ys) = nextCalls xs + nextCalls ys"
  by (induction xs rule: nextCalls.induct) auto

lemma gatedAdvance_ends_complete: "gatedAdvance clk p w es w' \<Longrightarrow> p w'"
  by (induction rule: gatedAdvance.induct) auto

lemma gatedAdvance_calls: "gatedAdvance clk p w es w' \<Longrightarrow> predicateCalls es = Suc (nextCalls es)"
  by (induction rule: gatedAdvance.induct) auto

lemma periodicExecution_calls:
  "periodicExecution clk interval sv i n w es w' \<Longrightarrow> predicateCalls es = (n - i) + nextCalls es"
  by (induction rule: periodicExecution.induct) (auto dest: gatedAdvance_calls)

lemma periodicLoop_periodic:
  "periodicLoop clk interval times' sv i s = Some s' \<Longrightarrow>
     \<exists>es. log s' = log s @ es
       \<and> periodicExecution clk interval sv i (max i (nat times')) (world s) es (world s')"
proof (induction clk interval times' sv i s rule: periodicLoop.induct)
  case (1 clk interval times' sv i s)
  show ?case
  proof (cases "int i < times'")
    case False
    with "1.prems" have "s' = s" by simp
    moreover from False have "max i (nat times') = i" by auto
    ultimately show ?thesis by (auto intro: periodicExecution.finished)
  next
    case True
    with "1.prems" obtain s1 where
      r: "runAllUntil clk (sv i) (await_tickAsync clk interval s) = Some s1"
      and rest: "periodicLoop clk interval times' sv (Suc i) s1 = Some s'"
      by (auto split: option.splits)
    from runAllUntil_gated [OF r] obtain es where
      es: "log s1 = log (await_tickAsync clk interval s) @ es"
      and g: "gatedAdvance clk (sv i) (world (await_tickAsync clk interval s)) es (world s1)"
      by blast
    from "1.IH" [OF True r rest] obtain es' where
      es': "log s' = log s1 @ es'"
      and p: "periodicExecution clk interval sv (Suc i) (max (Suc i) (nat times')) (world s1) es' (world s')"
      by blast
    from True have m: "max (Suc i) (nat times') = max i (nat times')" "i < max i (nat times')"
      by auto
    from g have g': "gatedAdvance clk (sv i) (tickAsync clk interval (world s)) es (world s1)"
      by (simp add: await_tickAsync_def logged_def)
    have "periodicExecution clk interval sv i (max i (nat times')) (world s)
            (TickAsync interval # es @ es') (world s')"
      using m(2) g' p [unfolded m(1)] by (rule periodicExecution.iteration)
    moreover have "log s' = log s @ TickAsync interval # es @ es'"
      using es es' by (simp add: await_tickAsync_def logged_def)
    ultimately show ?thesis by blast
  qed
qed

text \<open>
  C5, as the code has it. A call of \<^verbatim>\<open>runPeriodicAsyncBackgroundExecution\<close> that returns
  has run the iterations 0 to \<open>times - 1\<close> in order, each one tick of exactly \<open>interval\<close>
  milliseconds followed by the gated advancement with \<^verbatim>\<open>stepValidation(i)\<close>, which ends
  with the predicate holding before the next tick. The predicate is evaluated once per
  iteration and once more after every \<^verbatim>\<open>nextAsync\<close>: \<open>times\<close> evaluations plus the number
  of \<^verbatim>\<open>nextAsync\<close> calls, never before the tick of its iteration.
\<close>

theorem runPeriodic_iterations:
  assumes "runPeriodicAsyncBackgroundExecution clk interval times' stepValidation s = Some s'"
  shows "\<exists>es. log s' = log s @ es
           \<and> periodicExecution clk interval stepValidation 0 (nat times') (world s) es (world s')
           \<and> predicateCalls es = nat times' + nextCalls es"
proof -
  from assms periodicLoop_periodic [of clk interval times' stepValidation 0 s s']
  obtain es where es: "log s' = log s @ es"
    and p: "periodicExecution clk interval stepValidation 0 (nat times') (world s) es (world s')"
    by (auto simp: runPeriodicAsyncBackgroundExecution_def)
  from periodicExecution_calls [OF p] have "predicateCalls es = nat times' + nextCalls es" by simp
  with es p show ?thesis by blast
qed

lemma example_periodic_run:
  "runPeriodicAsyncBackgroundExecution (fakeClock exampleFire) 1000 3 exampleValidation exampleStart
     = Some \<lparr>log = [TickAsync 1000, IsComplete False, NextAsync, IsComplete True,
                    TickAsync 1000, IsComplete True, TickAsync 1000, IsComplete True],
             world = \<lparr>clockNow = 3010,
                       timers = [(4000, Callback BackgroundExecute)],
                       fired = [(1000, Callback BackgroundExecute), (1010, Callback CacheWrite),
                                (2000, Callback BackgroundExecute), (2010, Callback CacheWrite),
                                (3000, Callback BackgroundExecute), (3010, Callback CacheWrite)]\<rparr>\<rparr>"
  by (simp add: runPeriodicAsyncBackgroundExecution_def periodicLoop.simps runAllUntil.simps
        tickLoop.simps example_simps)

text \<open>
  With \<open>times = 3\<close> on the example system the predicate is evaluated four times, not
  three: after the first tick the cache has not been written yet, so the predicate fails
  once and is evaluated again after the \<^verbatim>\<open>nextAsync\<close> that fires the write.
\<close>

theorem runPeriodic_predicate_called_four_times:
  "runPeriodicAsyncBackgroundExecution (fakeClock exampleFire) 1000 3 exampleValidation exampleStart
     = Some \<lparr>log = [TickAsync 1000, IsComplete False, NextAsync, IsComplete True,
                    TickAsync 1000, IsComplete True, TickAsync 1000, IsComplete True],
             world = \<lparr>clockNow = 3010,
                       timers = [(4000, Callback BackgroundExecute)],
                       fired = [(1000, Callback BackgroundExecute), (1010, Callback CacheWrite),
                                (2000, Callback BackgroundExecute), (2010, Callback CacheWrite),
                                (3000, Callback BackgroundExecute), (3010, Callback CacheWrite)]\<rparr>\<rparr>
   \<and> predicateCalls [TickAsync 1000, IsComplete False, NextAsync, IsComplete True,
                      TickAsync 1000, IsComplete True, TickAsync 1000, IsComplete True] = 4
   \<and> predicateCalls [TickAsync 1000, IsComplete False, NextAsync, IsComplete True,
                      TickAsync 1000, IsComplete True, TickAsync 1000, IsComplete True] \<noteq> 3"
  using example_periodic_run by simp

theorem runPeriodic_iterations_witness:
  "runPeriodicAsyncBackgroundExecution (fakeClock exampleFire) 1000 3 exampleValidation exampleStart
     = Some \<lparr>log = [TickAsync 1000, IsComplete False, NextAsync, IsComplete True,
                    TickAsync 1000, IsComplete True, TickAsync 1000, IsComplete True],
             world = \<lparr>clockNow = 3010,
                       timers = [(4000, Callback BackgroundExecute)],
                       fired = [(1000, Callback BackgroundExecute), (1010, Callback CacheWrite),
                                (2000, Callback BackgroundExecute), (2010, Callback CacheWrite),
                                (3000, Callback BackgroundExecute), (3010, Callback CacheWrite)]\<rparr>\<rparr>
   \<and> periodicExecution (fakeClock exampleFire) 1000 exampleValidation 0 3 (world exampleStart)
        [TickAsync 1000, IsComplete False, NextAsync, IsComplete True,
         TickAsync 1000, IsComplete True, TickAsync 1000, IsComplete True]
        \<lparr>clockNow = 3010,
         timers = [(4000, Callback BackgroundExecute)],
         fired = [(1000, Callback BackgroundExecute), (1010, Callback CacheWrite),
                  (2000, Callback BackgroundExecute), (2010, Callback CacheWrite),
                  (3000, Callback BackgroundExecute), (3010, Callback CacheWrite)]\<rparr>
   \<and> predicateCalls [TickAsync 1000, IsComplete False, NextAsync, IsComplete True,
         TickAsync 1000, IsComplete True, TickAsync 1000, IsComplete True] = 3 + 1"
  using runPeriodic_iterations [OF example_periodic_run] example_periodic_run
  by (simp add: exampleStart_def)

subsection \<open>runAllUntilTime\<close>

lemma fake_nextAsync_sentinel:
  assumes inv: "sentinelPending target c" and lt: "clockNow c < target"
  shows "sentinelPending target (fake_nextAsync fire c)
         \<and> (\<exists>tm. fst tm \<le> target \<and> fired (fake_nextAsync fire c) = fired c @ [tm])"
proof -
  from inv lt have mem: "(target, SleepResolve) \<in> set (timers c)"
    by (simp add: sentinelPending_def)
  then have "timers c \<noteq> []" by auto
  then obtain tm where tm: "firstTimer (timers c) = Some tm"
    using firstTimer_Some by blast
  from firstTimer_least [OF tm mem] have le: "fst tm \<le> target" by simp
  have nxt: "fake_nextAsync fire c = callTimer False fire tm c"
    by (simp add: fake_nextAsync_def tm)
  have "(target, SleepResolve) \<in> set (timers (callTimer False fire tm c))" if "fst tm < target"
  proof -
    from that have "tm \<noteq> (target, SleepResolve)" by auto
    with mem have "(target, SleepResolve) \<in> set (remove1 tm (timers c))" by simp
    then show ?thesis by (simp add: callTimer_def Let_def)
  qed
  moreover have "clockNow (callTimer False fire tm c) = fst tm"
    by (simp add: callTimer_def Let_def)
  moreover have "fired (callTimer False fire tm c) = fired c @ [tm]"
    by (simp add: callTimer_def Let_def)
  ultimately have "sentinelPending target (callTimer False fire tm c)"
    and "fst tm \<le> target \<and> fired (callTimer False fire tm c) = fired c @ [tm]"
    using le by (auto simp: sentinelPending_def)
  then show ?thesis unfolding nxt by blast
qed

lemma firedWithin_refl: "firedWithin target c c"
  by (simp add: firedWithin_def firedSince_def)

lemma firedWithin_step:
  assumes "firedWithin target c0 c" and "fired c' = fired c @ [tm]" and "fst tm \<le> target"
  shows "firedWithin target c0 c'"
proof -
  from assms(1) have p: "prefix (fired c0) (fired c)"
    and a: "list_all (\<lambda>tm. fst tm \<le> target) (drop (length (fired c0)) (fired c))"
    by (simp_all add: firedWithin_def firedSince_def)
  from p have len: "length (fired c0) \<le> length (fired c)"
    by (rule prefix_length_le)
  from p have "prefix (fired c0) (fired c @ [tm])"
    by (rule prefix_prefix)
  with len a assms(2,3) show ?thesis
    by (simp add: firedWithin_def firedSince_def)
qed

lemma timeLoop_sentinel:
  assumes "sentinelPending target (world s)" and "firedWithin target c0 (world s)"
  shows "sentinelPending target (world (reached (timeLoop (fakeClock fire) target turns s)))
         \<and> firedWithin target c0 (world (reached (timeLoop (fakeClock fire) target turns s)))
         \<and> (\<forall>s'. timeLoop (fakeClock fire) target turns s = Returned s' \<longrightarrow> clockNow (world s') = target)
         \<and> (\<forall>s'. timeLoop (fakeClock fire) target turns s = Running s' \<longrightarrow> clockNow (world s') < target)"
  using assms
proof (induction turns arbitrary: s)
  case 0
  then show ?case by (auto simp: fakeClock_def sentinelPending_def)
next
  case (Suc turns)
  show ?case
  proof (cases "clockNow (world s) < target")
    case False
    with Suc.prems show ?thesis by (auto simp: fakeClock_def sentinelPending_def)
  next
    case True
    let ?s1 = "await_nextAsync (fakeClock fire) s"
    have w1: "world ?s1 = fake_nextAsync fire (world s)"
      by (simp add: await_nextAsync_def fakeClock_def logged_def)
    from fake_nextAsync_sentinel [OF Suc.prems(1) True, of fire]
    obtain tm where inv1: "sentinelPending target (world ?s1)"
      and tm: "fst tm \<le> target" "fired (world ?s1) = fired (world s) @ [tm]"
      unfolding w1 by blast
    from firedWithin_step [OF Suc.prems(2) tm(2) tm(1)]
    have fw1: "firedWithin target c0 (world ?s1)" .
    have unf: "timeLoop (fakeClock fire) target (Suc turns) s = timeLoop (fakeClock fire) target turns ?s1"
      using True by (simp add: fakeClock_def)
    from Suc.IH [OF inv1 fw1] show ?thesis unfolding unf .
  qed
qed

text \<open>
  C6. \<^verbatim>\<open>runAllUntilTime\<close> called at time \<open>t0\<close> with the duration \<open>d\<close>: after any number
  of turns of its loop the time is at most \<open>t0 + d\<close> and every timer fired since the call
  began had its deadline at or before \<open>t0 + d\<close>; while the call is in the loop the timer
  of \<^verbatim>\<open>sleep\<close> is pending at \<open>t0 + d\<close>; and the call that has returned has returned at
  exactly \<open>t0 + d\<close>.
\<close>

theorem runAllUntilTime_never_past_target:
  "clockNow (world (reached (runAllUntilTime (fakeClock fire) sleep d turns s))) \<le> clockNow (world s) + d
   \<and> firedWithin (clockNow (world s) + d) (world s)
        (world (reached (runAllUntilTime (fakeClock fire) sleep d turns s)))
   \<and> (\<forall>s'. runAllUntilTime (fakeClock fire) sleep d turns s = Returned s'
          \<longrightarrow> clockNow (world s') = clockNow (world s) + d)
   \<and> (\<forall>s'. runAllUntilTime (fakeClock fire) sleep d turns s = Running s'
          \<longrightarrow> clockNow (world s') < clockNow (world s) + d
              \<and> (clockNow (world s) + d, SleepResolve) \<in> set (timers (world s')))"
proof -
  let ?target = "clockNow (world s) + d"
  let ?s1 = "s\<lparr>world := sleep d (world s)\<rparr>"
  have run: "runAllUntilTime (fakeClock fire) sleep d turns s = timeLoop (fakeClock fire) ?target turns ?s1"
    by (simp add: runAllUntilTime_def fakeClock_def Let_def)
  have inv: "sentinelPending ?target (world ?s1)"
    by (simp add: sentinelPending_def sleep_def fake_setTimeout_def)
  have fw: "firedWithin ?target (world s) (world ?s1)"
    by (simp add: firedWithin_def firedSince_def sleep_def fake_setTimeout_def)
  from timeLoop_sentinel [OF inv fw, of fire turns] show ?thesis
    unfolding run by (auto simp: sentinelPending_def)
qed

lemma timeLoop_numeral:
  "timeLoop clk targetTime (numeral k) s =
     (if now clk (world s) < targetTime
      then timeLoop clk targetTime (pred_numeral k) (await_nextAsync clk s)
      else Returned s)"
  by (simp add: numeral_eq_Suc)

theorem runAllUntilTime_never_past_target_witness:
  "runAllUntilTime (fakeClock exampleFire) sleep 1500 5 exampleStart
     = Returned \<lparr>log = [NextAsync, NextAsync, NextAsync],
                 world = \<lparr>clockNow = 1500,
                           timers = [(2000, Callback BackgroundExecute)],
                           fired = [(1000, Callback BackgroundExecute), (1010, Callback CacheWrite),
                                    (1500, SleepResolve)]\<rparr>\<rparr>
   \<and> runAllUntilTime (fakeClock exampleFire) sleep 1500 2 exampleStart
     = Running \<lparr>log = [NextAsync, NextAsync],
                world = \<lparr>clockNow = 1010,
                          timers = [(1500, SleepResolve), (2000, Callback BackgroundExecute)],
                          fired = [(1000, Callback BackgroundExecute), (1010, Callback CacheWrite)]\<rparr>\<rparr>
   \<and> (1010::nat) < 0 + 1500"
  using runAllUntilTime_never_past_target [of exampleFire 1500 5 exampleStart]
        runAllUntilTime_never_past_target [of exampleFire 1500 2 exampleStart]
  by (simp add: runAllUntilTime_def timeLoop_numeral example_simps)

section \<open>Properties of TestAdapter\<close>

text \<open>
  C8. \<^verbatim>\<open>startBackgroundExecuteThenGetResponse\<close> throws when no clock is installed and
  when no mock cache was provided, \<^verbatim>\<open>waitForCache\<close> throws when no clock is installed
  (and, with a clock but no mock cache, at the first evaluation of its predicate), and
  \<^verbatim>\<open>getMetrics\<close> throws when the adapter was started without metrics; in each case
  the harness is unchanged, so no request was issued and the clock was not advanced.
\<close>

theorem TestAdapter_configuration_errors:
  "(clock ta = None \<longrightarrow>
      startBackgroundExecuteThenGetResponse rt ta params s = Some (Inl (Error clockMessage), s))
   \<and> (clock ta \<noteq> None \<and> mockCache ta = None \<longrightarrow>
      startBackgroundExecuteThenGetResponse rt ta params s = Some (Inl (Error mockCacheMessage), s))
   \<and> (clock ta = None \<longrightarrow> waitForCache ta expectedSize s = Some (Inl (Error clockMessage), s))
   \<and> (clock ta \<noteq> None \<and> mockCache ta = None \<longrightarrow>
      waitForCache ta expectedSize s = Some (Inl (TypeError (cannotRead ''undefined'' ''cache'')), s))
   \<and> (metricsApi ta = None \<longrightarrow> getMetrics rt ta s = Inl (Error metricsMessage))"
  by (auto simp: startBackgroundExecuteThenGetResponse_def waitForCache_def getMetrics_def)

theorem TestAdapter_configuration_errors_witness:
  "startBackgroundExecuteThenGetResponse exampleRuntime adapterWithoutClock exampleParams exampleStart
     = Some (Inl (Error clockMessage), exampleStart)
   \<and> startBackgroundExecuteThenGetResponse exampleRuntime adapterWithoutMockCache exampleParams exampleStart
     = Some (Inl (Error mockCacheMessage), exampleStart)
   \<and> waitForCache adapterWithoutClock None exampleStart = Some (Inl (Error clockMessage), exampleStart)
   \<and> waitForCache adapterWithoutMockCache None exampleStart
     = Some (Inl (TypeError (cannotRead ''undefined'' ''cache'')), exampleStart)
   \<and> getMetrics exampleRuntime adapterWithoutClock exampleStart = Inl (Error metricsMessage)"
  using TestAdapter_configuration_errors
          [of adapterWithoutClock exampleRuntime exampleParams exampleStart None]
        TestAdapter_configuration_errors
          [of adapterWithoutMockCache exampleRuntime exampleParams exampleStart None]
  by (simp add: adapterWithoutClock_def adapterWithoutMockCache_def newTestAdapter_def)

text \<open>
  With the clock and the mock cache in place the first request is answered 504, the
  adapter waits for one cache write, and the second request is answered 200.
\<close>

lemma example_background_execute:
  "startBackgroundExecuteThenGetResponse exampleRuntime exampleAdapter exampleParams exampleStart
     = Some (Inr (exampleResponse 200),
         \<lparr>log = [Inject JNull, NextAsync, Assertion True, IsComplete False, NextAsync,
                 IsComplete True, Inject JNull, NextAsync, Assertion True],
          world = \<lparr>clockNow = 2000,
                    timers = [(3000, Callback BackgroundExecute), (2010, Callback CacheWrite)],
                    fired = [(1000, Callback BackgroundExecute), (1010, Callback CacheWrite),
                             (2000, Callback BackgroundExecute)]\<rparr>\<rparr>)"
  by (simp add: startBackgroundExecuteThenGetResponse_def request_def waitForCache_def
        waitUntilResolved_def waitLoop.simps runAllUntil.simps resultSlot_def t_is_def
        exampleAdapter_def newTestAdapter_def exampleApi_def exampleMockCache_def
        exampleParams_def exampleResponse_def objectLiteral_def example_simps)

end
